theory Spec2Isabelle
  imports Complex_Main
begin

section \<open>JavaScript values\<close>

text \<open>
  The service is TypeScript running on a JavaScript engine. A string is modelled as the
  list of its code units, restricted to 8-bit units (\<^typ>\<open>string\<close>). A number is a
  finite rational, an infinity or NaN: every finite double is a rational, the two zeros
  are identified (both are falsy, and no code path tells them apart), and the decimal
  literal \<open>0.7\<close> of the source is written \<open>7/10\<close>.
\<close>

datatype number = NaN | PosInfinity | NegInfinity | Finite rat

datatype jsvalue =
    JUndefined
  | JNull
  | JBool bool
  | JNum number
  | JStr string
  | JArr "jsvalue list"
  | JObj "(string \<times> jsvalue) list"

text \<open>
  A thrown value (or the reason of a rejected promise): an \<open>Error\<close> object with its
  name and message, or any other value.
\<close>

datatype thrown = ErrorObject string string | OtherValue jsvalue

text \<open>
  The built-ins of the platform that the code calls and whose full definition lies in the
  language standard, not in this repository. They are parameters of the model:
  \<open>JSON_parse\<close> returns \<open>None\<close> where \<open>JSON.parse\<close> throws a SyntaxError,
  \<open>ToNumber\<close> and \<open>ToString\<close> are the standard conversions.
\<close>

record platform =
  parseInt :: "string \<Rightarrow> number"
  parseFloat :: "string \<Rightarrow> number"
  JSON_parse :: "string \<Rightarrow> jsvalue option"
  ToNumber :: "jsvalue \<Rightarrow> number"
  ToString :: "jsvalue \<Rightarrow> string"

subsection \<open>Truthiness and the operator \<open>||\<close>\<close>

definition num_truthy :: "number \<Rightarrow> bool" where
  "num_truthy n = (case n of NaN \<Rightarrow> False | Finite q \<Rightarrow> q \<noteq> 0 | _ \<Rightarrow> True)"

fun truthy :: "jsvalue \<Rightarrow> bool" where
  "truthy JUndefined = False"
| "truthy JNull = False"
| "truthy (JBool b) = b"
| "truthy (JNum n) = num_truthy n"
| "truthy (JStr s) = (s \<noteq> [])"
| "truthy (JArr xs) = True"
| "truthy (JObj kvs) = True"

text \<open>\<open>a || b\<close> where \<open>a\<close> is a string or undefined, and where it is a number or undefined.\<close>

definition str_or :: "string option \<Rightarrow> string \<Rightarrow> string" where
  "str_or a b = (case a of None \<Rightarrow> b | Some s \<Rightarrow> if s \<noteq> [] then s else b)"

definition num_or :: "number option \<Rightarrow> number \<Rightarrow> number" where
  "num_or a b = (case a of None \<Rightarrow> b | Some n \<Rightarrow> if num_truthy n then n else b)"

subsection \<open>Property access, comparison with zero, trimming\<close>

definition TypeError :: thrown where
  "TypeError = ErrorObject ''TypeError'' []"

text \<open>
  \<open>v.k\<close> for a property name \<open>k\<close> that is not an index. Reading a property of
  \<open>undefined\<close> or \<open>null\<close> throws a TypeError (the engine's message text is not
  modelled); a missing property is \<open>undefined\<close>. The code reads the names
  \<open>choices\<close>, \<open>length\<close>, \<open>message\<close>, \<open>content\<close>, \<open>query\<close>, \<open>variables\<close>
  and \<open>operationName\<close> only, none of which is inherited from a prototype.
\<close>

fun get_prop :: "jsvalue \<Rightarrow> string \<Rightarrow> thrown + jsvalue" where
  "get_prop JUndefined k = Inl TypeError"
| "get_prop JNull k = Inl TypeError"
| "get_prop (JBool b) k = Inr JUndefined"
| "get_prop (JNum n) k = Inr JUndefined"
| "get_prop (JStr s) k =
     Inr (if k = ''length'' then JNum (Finite (of_nat (length s))) else JUndefined)"
| "get_prop (JArr xs) k =
     Inr (if k = ''length'' then JNum (Finite (of_nat (length xs))) else JUndefined)"
| "get_prop (JObj kvs) k = Inr (case map_of kvs k of None \<Rightarrow> JUndefined | Some v \<Rightarrow> v)"

definition digit_char :: "nat \<Rightarrow> char" where
  "digit_char d = ''0123456789'' ! d"

fun show_nat :: "nat \<Rightarrow> string" where
  "show_nat n =
     (if n < 10 then [digit_char n] else show_nat (n div 10) @ [digit_char (n mod 10)])"

text \<open>\<open>v[i]\<close> for a non-negative integer index \<open>i\<close>.\<close>

fun get_index :: "jsvalue \<Rightarrow> nat \<Rightarrow> thrown + jsvalue" where
  "get_index JUndefined i = Inl TypeError"
| "get_index JNull i = Inl TypeError"
| "get_index (JBool b) i = Inr JUndefined"
| "get_index (JNum n) i = Inr JUndefined"
| "get_index (JStr s) i = Inr (if i < length s then JStr [s ! i] else JUndefined)"
| "get_index (JArr xs) i = Inr (if i < length xs then xs ! i else JUndefined)"
| "get_index (JObj kvs) i =
     Inr (case map_of kvs (show_nat i) of None \<Rightarrow> JUndefined | Some v \<Rightarrow> v)"

definition num_gt_zero :: "number \<Rightarrow> bool" where
  "num_gt_zero n = (case n of Finite q \<Rightarrow> 0 < q | PosInfinity \<Rightarrow> True | _ \<Rightarrow> False)"

text \<open>\<open>v > 0\<close>: the operand is converted to a number first.\<close>

fun gt_zero :: "platform \<Rightarrow> jsvalue \<Rightarrow> bool" where
  "gt_zero P JUndefined = False"
| "gt_zero P JNull = False"
| "gt_zero P (JBool b) = b"
| "gt_zero P (JNum n) = num_gt_zero n"
| "gt_zero P v = num_gt_zero (ToNumber P v)"

text \<open>
  \<open>String.prototype.trim\<close> removes white space and line terminators from both ends;
  among 8-bit code units these are TAB, LF, VT, FF, CR, SPACE and NO-BREAK SPACE.
\<close>

definition is_space :: "char \<Rightarrow> bool" where
  "is_space c = (c \<in> set [CHR 0x09, CHR 0x0A, CHR 0x0B, CHR 0x0C, CHR 0x0D, CHR 0x20, CHR 0xA0])"

definition trim :: "string \<Rightarrow> string" where
  "trim s = rev (dropWhile is_space (rev (dropWhile is_space s)))"

text \<open>\<open>s.includes(t)\<close>: \<open>t\<close> occurs in \<open>s\<close> as a contiguous substring.\<close>

fun starts_with :: "string \<Rightarrow> string \<Rightarrow> bool" where
  "starts_with s [] = True"
| "starts_with [] (d # t) = False"
| "starts_with (c # s) (d # t) = (c = d \<and> starts_with s t)"

fun str_includes :: "string \<Rightarrow> string \<Rightarrow> bool" where
  "str_includes [] t = (t = [])"
| "str_includes (c # s) t = (starts_with (c # s) t \<or> str_includes s t)"

section \<open>The completion client (chatgpt.ts)\<close>

record ChatGPTConfig =
  cfg_apiKey :: string
  cfg_model :: "string option"
  cfg_maxTokens :: "number option"
  cfg_temperature :: "number option"

datatype role = system | user | assistant

record ChatMessage =
  role :: role
  content :: string

record ChatCompletionRequest =
  req_model :: string
  req_messages :: "ChatMessage list"
  req_max_tokens :: number
  req_temperature :: number

record ChatGPTService =
  apiKey :: string
  baseUrl :: string
  defaultModel :: string
  maxTokens :: number
  temperature :: number

text \<open>The constructor: every optional setting falls back to its default when it is falsy.\<close>

definition new_ChatGPTService :: "ChatGPTConfig \<Rightarrow> ChatGPTService" where
  "new_ChatGPTService config =
     \<lparr> apiKey = str_or (Some (cfg_apiKey config)) [],
       baseUrl = ''https://api.openai.com/v1'',
       defaultModel = str_or (cfg_model config) ''gpt-3.5-turbo'',
       maxTokens = num_or (cfg_maxTokens config) (Finite 1000),
       temperature = num_or (cfg_temperature config) (Finite (7 / 10)) \<rparr>"

definition updateApiKey :: "ChatGPTService \<Rightarrow> string \<Rightarrow> ChatGPTService" where
  "updateApiKey this k = this\<lparr>apiKey := k\<rparr>"

text \<open>The environment bindings of the worker (interface \<open>Env\<close>); each one may be absent.\<close>

record Env =
  OPENAI_API_KEY :: "string option"
  OPENAI_MODEL :: "string option"
  MAX_TOKENS :: "string option"
  TEMPERATURE :: "string option"
  ENVIRONMENT :: "string option"
  ALLOWED_ORIGINS :: "string option"

definition createChatGPTService :: "platform \<Rightarrow> Env \<Rightarrow> ChatGPTService" where
  "createChatGPTService P env =
     new_ChatGPTService
       \<lparr> cfg_apiKey = str_or (OPENAI_API_KEY env) [],
         cfg_model = Some (str_or (OPENAI_MODEL env) ''gpt-3.5-turbo''),
         cfg_maxTokens = Some (parseInt P (str_or (MAX_TOKENS env) ''1000'')),
         cfg_temperature = Some (parseFloat P (str_or (TEMPERATURE env) ''0.7'')) \<rparr>"

subsection \<open>The upstream call and its outcomes\<close>

text \<open>
  The request handed to \<open>fetch\<close>; \<open>http_body\<close> is the value that
  \<open>JSON.stringify\<close> serialises.
\<close>

record http_request =
  http_url :: string
  http_method :: string
  http_headers :: "(string \<times> string) list"
  http_body :: ChatCompletionRequest

text \<open>
  The response of the upstream: reading its body as text or as JSON may reject (a body
  that is not JSON rejects \<open>json()\<close>).
\<close>

record upstream_response =
  ok :: bool
  status :: nat
  text_body :: "thrown + string"
  json_body :: "thrown + jsvalue"

text \<open>
  What the code cannot decide itself: the outcome of \<open>fetch\<close> for a request (\<open>Inl\<close>
  is a rejected promise, a transport error) and the value \<open>Math.random()\<close> returns.
\<close>

record world =
  upstream :: "http_request \<Rightarrow> thrown + upstream_response"
  Math_random :: rat

record options =
  opt_conversationId :: "string option"
  opt_model :: "string option"
  opt_systemPrompt :: "string option"

definition mockResponses :: "string \<Rightarrow> string list" where
  \<open>mockResponses message =
     [''I understand you said: "'' @ message @
        ''". This is a mock response since no API key is configured.'',
      ''Thank you for your message: "'' @ message @
        ''". Please configure your ChatGPT API key for real responses.'',
      ''Mock AI Response: I received your message "'' @ message @
        ''" but I'm running in demo mode.'',
      ''Hello! You asked: "'' @ message @
        ''". This is a placeholder response - please add your OpenAI API key.'']\<close>

text \<open>
  \<open>mockResponses[Math.floor(Math.random() * mockResponses.length)]\<close>; an index outside
  the array reads \<open>undefined\<close>.
\<close>

definition getMockResponse :: "world \<Rightarrow> string \<Rightarrow> jsvalue" where
  "getMockResponse w message =
     (let i = \<lfloor>Math_random w * of_nat (length (mockResponses message))\<rfloor>
      in if 0 \<le> i \<and> i < int (length (mockResponses message))
         then JStr (mockResponses message ! nat i) else JUndefined)"

text \<open>\<open>options?.f\<close> for an optional field \<open>f\<close> of the optional argument.\<close>

definition opt_field :: "(options \<Rightarrow> string option) \<Rightarrow> options option \<Rightarrow> string option" where
  "opt_field f opts = (case opts of None \<Rightarrow> None | Some z \<Rightarrow> f z)"

definition build_messages :: "string \<Rightarrow> options option \<Rightarrow> ChatMessage list" where
  "build_messages message opts =
     (case opt_field opt_systemPrompt opts of
        None \<Rightarrow> []
      | Some p \<Rightarrow> if p \<noteq> [] then [\<lparr>role = system, content = p\<rparr>] else [])
     @ [\<lparr>role = user, content = message\<rparr>]"

definition build_request :: "ChatGPTService \<Rightarrow> string \<Rightarrow> options option \<Rightarrow> http_request" where
  "build_request this message opts =
     \<lparr> http_url = baseUrl this @ ''/chat/completions'',
       http_method = ''POST'',
       http_headers = [(''Content-Type'', ''application/json''),
                       (''Authorization'', ''Bearer '' @ apiKey this)],
       http_body = \<lparr> req_model = str_or (opt_field opt_model opts) (defaultModel this),
                     req_messages = build_messages message opts,
                     req_max_tokens = maxTokens this,
                     req_temperature = temperature this \<rparr> \<rparr>"

definition and_then :: "thrown + 'a \<Rightarrow> ('a \<Rightarrow> thrown + 'b) \<Rightarrow> thrown + 'b" where
  "and_then m f = (case m of Inl e \<Rightarrow> Inl e | Inr x \<Rightarrow> f x)"

text \<open>
  \<open>if (data.choices && data.choices.length > 0) return data.choices[0].message.content;
  else throw new Error('No response from ChatGPT API')\<close>
\<close>

definition first_choice_content :: "platform \<Rightarrow> jsvalue \<Rightarrow> thrown + jsvalue" where
  "first_choice_content P data =
     and_then (get_prop data ''choices'') (\<lambda>choices.
       if truthy choices \<and>
          (case get_prop choices ''length'' of Inl e \<Rightarrow> False | Inr n \<Rightarrow> gt_zero P n)
       then and_then (get_index choices 0) (\<lambda>choice.
            and_then (get_prop choice ''message'') (\<lambda>m. get_prop m ''content''))
       else Inl (ErrorObject ''Error'' ''No response from ChatGPT API''))"

text \<open>The body of the \<open>try\<close> block: \<open>Inl\<close> is an exception raised inside it.\<close>

definition try_upstream :: "platform \<Rightarrow> world \<Rightarrow> http_request \<Rightarrow> thrown + jsvalue" where
  "try_upstream P w request =
     and_then (upstream w request) (\<lambda>response.
       if \<not> ok response then
         and_then (text_body response) (\<lambda>errorData.
           Inl (ErrorObject ''Error''
                  (''ChatGPT API error: '' @ show_nat (status response) @ '' - '' @ errorData)))
       else and_then (json_body response) (first_choice_content P))"

text \<open>
  \<open>sendMessage\<close> returns its result (\<open>Inl\<close> would be an exception that reaches the
  caller) and the list of requests it sent to the upstream. The calls of \<open>console.warn\<close>
  and \<open>console.error\<close> change no result and are left out.
\<close>

definition sendMessage ::
  "platform \<Rightarrow> world \<Rightarrow> ChatGPTService \<Rightarrow> string \<Rightarrow> options option
     \<Rightarrow> (thrown + jsvalue) \<times> http_request list" where
  "sendMessage P w this message opts =
     (if apiKey this = [] \<or> trim (apiKey this) = [] then
        (Inr (getMockResponse w message), [])
      else
        let request = build_request this message opts in
          (case try_upstream P w request of
             Inr v \<Rightarrow> Inr v
           | Inl error \<Rightarrow> Inr (getMockResponse w message),
           [request]))"

section \<open>The GraphQL resolvers (schema.ts)\<close>

text \<open>
  The resolvers read the clock and the random source: \<open>random_base36\<close> is the value of
  \<open>Math.random().toString(36).substring(2)\<close>, \<open>now_base36\<close> that of
  \<open>Date.now().toString(36)\<close> and \<open>now_iso\<close> that of \<open>new Date().toISOString()\<close>.
\<close>

record clock =
  random_base36 :: string
  now_base36 :: string
  now_iso :: string

definition generateId :: "clock \<Rightarrow> string" where
  "generateId c = random_base36 c @ now_base36 c"

record MessageInput =
  in_message :: string
  in_conversationId :: "string option"
  in_model :: "string option"

record ChatResponse =
  res_id :: string
  res_message :: jsvalue
  res_timestamp :: string
  res_model :: string

definition Query_hello :: string where
  "Query_hello = ''Hello from AI Chat Service!''"

definition Query_chat :: "clock \<Rightarrow> string \<Rightarrow> ChatResponse" where
  "Query_chat c message =
     \<lparr> res_id = generateId c,
       res_message = JStr (''Echo: '' @ message),
       res_timestamp = now_iso c,
       res_model = ''gpt-3.5-turbo'' \<rparr>"

text \<open>\<open>`${error}`\<close>: an \<open>Error\<close> object prints as its name and message.\<close>

definition thrown_to_string :: "platform \<Rightarrow> thrown \<Rightarrow> string" where
  "thrown_to_string P e =
     (case e of
        ErrorObject n m \<Rightarrow> if n = [] then m else if m = [] then n else n @ '': '' @ m
      | OtherValue v \<Rightarrow> ToString P v)"

text \<open>
  The mutation resolver: it returns the response (\<open>Inl\<close> is the error it throws into
  the engine's error channel) and the requests sent to the upstream.
\<close>

definition Mutation_sendMessage ::
  "platform \<Rightarrow> world \<Rightarrow> clock \<Rightarrow> ChatGPTService \<Rightarrow> MessageInput
     \<Rightarrow> (thrown + ChatResponse) \<times> http_request list" where
  "Mutation_sendMessage P w c chatService input =
     (case sendMessage P w chatService (in_message input)
             (Some \<lparr> opt_conversationId = in_conversationId input,
                     opt_model = Some (str_or (in_model input) ''gpt-3.5-turbo''),
                     opt_systemPrompt = None \<rparr>) of
        (Inr response, sent) \<Rightarrow>
          (Inr \<lparr> res_id = generateId c,
                 res_message = response,
                 res_timestamp = now_iso c,
                 res_model = str_or (in_model input) ''gpt-3.5-turbo'' \<rparr>, sent)
      | (Inl error, sent) \<Rightarrow>
          (Inl (ErrorObject ''Error'' (''Chat service error: '' @ thrown_to_string P error)),
           sent))"

section \<open>The request gateway (index.ts)\<close>

text \<open>
  An inbound request: its method, the path and the query parameters of its URL (the
  runtime hands the handler an absolute URL, which \<open>new URL\<close> parses), its
  \<open>content-type\<close> header if any, and its body text. \<open>request.text()\<close> is the
  body text and \<open>request.json()\<close> is \<open>JSON.parse\<close> of it.
\<close>

record Request =
  request_method :: string
  pathname :: string
  searchParams :: "(string \<times> string) list"
  content_type :: "string option"
  body :: string

text \<open>
  A response body: none (\<open>null\<close>), the text \<open>JSON.stringify(v)\<close> of a value, or
  literal text.
\<close>

datatype response_body = NoBody | JsonBody jsvalue | TextBody string

record Response =
  rsp_status :: nat
  rsp_headers :: "(string \<times> string) list"
  rsp_body :: response_body

definition corsHeaders :: "(string \<times> string) list" where
  "corsHeaders =
     [(''Access-Control-Allow-Origin'', ''*''),
      (''Access-Control-Allow-Methods'', ''GET, POST, OPTIONS''),
      (''Access-Control-Allow-Headers'', ''Content-Type, Authorization'')]"

definition handleCORS :: "Request \<Rightarrow> Response option" where
  "handleCORS request =
     (if request_method request = ''OPTIONS''
      then Some \<lparr> rsp_status = 200, rsp_headers = corsHeaders, rsp_body = NoBody \<rparr>
      else None)"

definition SyntaxError :: thrown where
  "SyntaxError = ErrorObject ''SyntaxError'' []"

definition header_includes :: "string option \<Rightarrow> string \<Rightarrow> bool" where
  "header_includes h t = (case h of None \<Rightarrow> False | Some s \<Rightarrow> str_includes s t)"

text \<open>
  \<open>parseGraphQLRequest\<close>: the decoded request, \<open>null\<close> where the source returns
  \<open>null\<close>, or an exception (\<open>JSON.parse\<close> of the \<open>variables\<close> parameter is not
  inside a \<open>try\<close>).
\<close>

definition parseGraphQLRequest :: "platform \<Rightarrow> Request \<Rightarrow> thrown + jsvalue" where
  "parseGraphQLRequest P request =
     (if request_method request = ''POST'' then
        (if header_includes (content_type request) ''application/json'' then
           (case JSON_parse P (body request) of
              Some b \<Rightarrow> Inr b
            | None \<Rightarrow> Inr JNull)
         else if header_includes (content_type request) ''application/graphql'' then
           Inr (JObj [(''query'', JStr (body request))])
         else Inr JNull)
      else if request_method request = ''GET'' then
        (let query = map_of (searchParams request) ''query'';
             variables = map_of (searchParams request) ''variables'';
             operationName = map_of (searchParams request) ''operationName''
         in case query of
              None \<Rightarrow> Inr JNull
            | Some q \<Rightarrow>
                if q = [] then Inr JNull
                else
                  and_then
                    (case variables of
                       None \<Rightarrow> Inr JUndefined
                     | Some v \<Rightarrow>
                         if v = [] then Inr JUndefined
                         else (case JSON_parse P v of
                                 None \<Rightarrow> Inl SyntaxError
                               | Some j \<Rightarrow> Inr j))
                    (\<lambda>vars.
                       Inr (JObj [(''query'', JStr q),
                                  (''variables'', vars),
                                  (''operationName'',
                                     (case operationName of
                                        None \<Rightarrow> JUndefined
                                      | Some n \<Rightarrow> if n = [] then JUndefined else JStr n))])))
      else Inr JNull)"

text \<open>
  The execution engine \<open>graphql\<close> of the library is a parameter of the gateway: it
  receives these arguments and returns its result, or throws.
\<close>

record graphql_args =
  source :: jsvalue
  variableValues :: jsvalue
  operationName :: jsvalue
  ctx_chatService :: ChatGPTService
  ctx_env :: Env
  ctx_request :: Request

definition html_line :: "nat \<Rightarrow> string \<Rightarrow> string" where
  "html_line n s = replicate n (CHR 0x09) @ s @ [CHR 0x0A]"

text \<open>
  The static page, character by character; the non-ASCII characters of the heading stand
  as the bytes of the source file.
\<close>

definition playgroundHTML :: string where
  \<open>playgroundHTML =
     [CHR 0x0A] @ concat
     [
      html_line 3 ''<!DOCTYPE html>'',
      html_line 3 ''<html>'',
      html_line 3 ''<head>'',
      html_line 4 ''<title>AI Chat Service - GraphQL Playground</title>'',
      html_line 4 ''<style>'',
      html_line 5 ''body { font-family: Arial, sans-serif; margin: 40px; }'',
      html_line 5 ''.container { max-width: 800px; margin: 0 auto; }'',
      html_line 5 ''h1 { color: #333; }'',
      html_line 5 ''.endpoint { background: #f5f5f5; padding: 10px; border-radius: 4px; margin: 10px 0; }'',
      html_line 5 ''code { background: #e8e8e8; padding: 2px 4px; border-radius: 2px; }'',
      html_line 5 ''.example { background: #f9f9f9; padding: 15px; border-left: 4px solid #007acc; margin: 15px 0; }'',
      html_line 4 ''</style>'',
      html_line 3 ''</head>'',
      html_line 3 ''<body>'',
      html_line 4 ''<div class="container">'',
      html_line 5 (''<h1>'' @ [CHR 0xC3, CHR 0xB0, CHR 0xC5, CHR 0xB8, CHR 0xC2, CHR 0xA4, CHR 0xE2, CHR 0x80, CHR 0x93] @ '' AI Chat Service</h1>''),
      html_line 5 ''<p>Welcome to the AI Chat Service GraphQL API!</p>'',
      html_line 5 [],
      html_line 5 ''<h2>Endpoints</h2>'',
      html_line 5 ''<div class="endpoint">'',
      html_line 6 ''<strong>GraphQL:</strong> <code>/graphql</code>'',
      html_line 5 ''</div>'',
      html_line 5 ''<div class="endpoint">'',
      html_line 6 ''<strong>Health Check:</strong> <code>/health</code>'',
      html_line 5 ''</div>'',
      html_line 5 [],
      html_line 5 ''<h2>Example Queries</h2>'',
      html_line 5 ''<div class="example">'',
      html_line 6 ''<h3>Hello Query</h3>'',
      html_line 6 ''<pre>query {'',
      html_line 0 ''  hello'',
      html_line 0 ''}</pre>'',
      html_line 5 ''</div>'',
      html_line 5 [],
      html_line 5 ''<div class="example">'',
      html_line 6 ''<h3>Chat Query</h3>'',
      html_line 6 ''<pre>query {'',
      html_line 0 ''  chat(message: "Hello, how are you?") {'',
      html_line 0 ''    id'',
      html_line 0 ''    message'',
      html_line 0 ''    timestamp'',
      html_line 0 ''    model'',
      html_line 0 ''  }'',
      html_line 0 ''}</pre>'',
      html_line 5 ''</div>'',
      html_line 5 [],
      html_line 5 ''<div class="example">'',
      html_line 6 ''<h3>Send Message Mutation</h3>'',
      html_line 6 ''<pre>mutation {'',
      html_line 0 ''  sendMessage(input: {'',
      html_line 0 ''    message: "What is the weather like?"'',
      html_line 0 ''    model: "gpt-3.5-turbo"'',
      html_line 0 ''  }) {'',
      html_line 0 ''    id'',
      html_line 0 ''    message'',
      html_line 0 ''    timestamp'',
      html_line 0 ''    model'',
      html_line 0 ''  }'',
      html_line 0 ''}</pre>'',
      html_line 5 ''</div>'',
      html_line 5 [],
      html_line 5 ''<p><strong>Note:</strong> This service is configured to use mock responses when no OpenAI API key is provided.</p>'',
      html_line 4 ''</div>'',
      html_line 3 ''</body>'',
      html_line 3 ''</html>''
     ] @ replicate 3 (CHR 0x09)\<close>

definition json_headers :: "(string \<times> string) list" where
  "json_headers = (''Content-Type'', ''application/json'') # corsHeaders"

text \<open>
  The body of the \<open>try\<close> block of the GraphQL route: build the service, run the engine,
  wrap its result.
\<close>

definition execute_graphql ::
  "platform \<Rightarrow> (graphql_args \<Rightarrow> thrown + jsvalue) \<Rightarrow> Request \<Rightarrow> Env \<Rightarrow> jsvalue
     \<Rightarrow> thrown + Response" where
  "execute_graphql P graphql request env graphqlRequest =
     (let chatService = createChatGPTService P env in
      and_then (get_prop graphqlRequest ''query'') (\<lambda>q.
      and_then (get_prop graphqlRequest ''variables'') (\<lambda>v.
      and_then (get_prop graphqlRequest ''operationName'') (\<lambda>n.
      and_then (graphql \<lparr> source = q, variableValues = v, operationName = n,
                          ctx_chatService = chatService, ctx_env = env,
                          ctx_request = request \<rparr>) (\<lambda>result.
        Inr \<lparr> rsp_status = 200, rsp_headers = json_headers,
              rsp_body = JsonBody result \<rparr>)))))"

text \<open>
  The handler \<open>fetch\<close> of the worker. \<open>Inl\<close> is an exception that leaves the handler:
  then the gateway produces no response at all.
\<close>

definition fetch ::
  "platform \<Rightarrow> (graphql_args \<Rightarrow> thrown + jsvalue) \<Rightarrow> clock \<Rightarrow> Request \<Rightarrow> Env
     \<Rightarrow> thrown + Response" where
  "fetch P graphql c request env =
     (case handleCORS request of
        Some corsResponse \<Rightarrow> Inr corsResponse
      | None \<Rightarrow>
          if pathname request = ''/health'' then
            Inr \<lparr> rsp_status = 200, rsp_headers = json_headers,
                  rsp_body = JsonBody (JObj [(''status'', JStr ''healthy''),
                                             (''timestamp'', JStr (now_iso c)),
                                             (''version'', JStr ''1.0.0'')]) \<rparr>
          else if pathname request = ''/graphql'' then
            and_then (parseGraphQLRequest P request) (\<lambda>graphqlRequest.
              if \<not> truthy graphqlRequest then
                Inr \<lparr> rsp_status = 400, rsp_headers = json_headers,
                      rsp_body = JsonBody (JObj [(''error'', JStr ''Invalid GraphQL request'')]) \<rparr>
              else
                (case execute_graphql P graphql request env graphqlRequest of
                   Inr response \<Rightarrow> Inr response
                 | Inl error \<Rightarrow>
                     Inr \<lparr> rsp_status = 500, rsp_headers = json_headers,
                           rsp_body = JsonBody (JObj
                             [(''error'', JStr ''Internal server error''),
                              (''message'',
                                 JStr (case error of
                                         ErrorObject n m \<Rightarrow> m
                                       | OtherValue x \<Rightarrow> ''Unknown error''))]) \<rparr>))
          else if pathname request = ''/playground'' \<or> pathname request = ''/'' then
            Inr \<lparr> rsp_status = 200,
                  rsp_headers = (''Content-Type'', ''text/html'') # corsHeaders,
                  rsp_body = TextBody playgroundHTML \<rparr>
          else
            Inr \<lparr> rsp_status = 404, rsp_headers = json_headers,
                  rsp_body = JsonBody (JObj
                    [(''error'', JStr ''Not Found''),
                     (''message'', JStr ''Available endpoints: /, /graphql, /health'')]) \<rparr>)"

section \<open>Example inputs\<close>

text \<open>
  Concrete inputs on which the model is run below. \<open>example_platform\<close> fixes each
  built-in on the arguments the examples use, where it agrees with the standard: the
  value of a string of decimal digits and of \<open>0.7\<close>, and \<open>JSON.parse\<close> of the three
  texts \<open>{}\<close>, \<open>null\<close> and \<open>{\<close> (the last one is not JSON). It stands for the
  built-ins on these arguments only; the general statements below hold for every
  platform.
\<close>

definition digit_value :: "char \<Rightarrow> nat option" where
  "digit_value ch =
     (if ch \<in> set ''0123456789'' then Some (of_char ch - 48) else None)"

fun decimal_value :: "nat \<Rightarrow> string \<Rightarrow> number" where
  "decimal_value acc [] = Finite (of_nat acc)"
| "decimal_value acc (ch # s) =
     (case digit_value ch of None \<Rightarrow> NaN | Some d \<Rightarrow> decimal_value (10 * acc + d) s)"

definition example_platform :: platform where
  "example_platform =
     \<lparr> parseInt = (\<lambda>s. if s = [] then NaN else decimal_value 0 s),
       parseFloat = (\<lambda>s. if s = ''0.7'' then Finite (7 / 10)
                          else if s = [] then NaN else decimal_value 0 s),
       JSON_parse = (\<lambda>s. if s = ''{}'' then Some (JObj [])
                          else if s = ''null'' then Some JNull else None),
       ToNumber = (\<lambda>v. NaN),
       ToString = (\<lambda>v. []) \<rparr>"

definition example_env :: Env where
  "example_env =
     \<lparr> OPENAI_API_KEY = Some ''sk-test'', OPENAI_MODEL = Some ''gpt-4'',
       MAX_TOKENS = Some ''0'', TEMPERATURE = Some ''0'',
       ENVIRONMENT = None, ALLOWED_ORIGINS = None \<rparr>"

definition example_service :: ChatGPTService where
  "example_service =
     new_ChatGPTService \<lparr> cfg_apiKey = ''sk-test'', cfg_model = Some ''gpt-4'',
                          cfg_maxTokens = Some (Finite 256),
                          cfg_temperature = Some (Finite (1 / 2)) \<rparr>"

definition example_clock :: clock where
  "example_clock =
     \<lparr> random_base36 = ''4fzyo82mvyr'', now_base36 = ''lq1x3k5b'',
       now_iso = ''2024-01-01T00:00:00.000Z'' \<rparr>"

text \<open>An upstream that answers every request with the given response.\<close>

definition answering_world :: "upstream_response \<Rightarrow> world" where
  "answering_world r = \<lparr> upstream = (\<lambda>request. Inr r), Math_random = 1 / 2 \<rparr>"

text \<open>An upstream that cannot be reached.\<close>

definition unreachable_world :: world where
  "unreachable_world =
     \<lparr> upstream = (\<lambda>request. Inl (ErrorObject ''TypeError'' ''fetch failed'')),
       Math_random = 1 / 2 \<rparr>"

definition completion_body :: "jsvalue list \<Rightarrow> jsvalue" where
  "completion_body choices =
     JObj [(''id'', JStr ''chatcmpl-1''), (''object'', JStr ''chat.completion''),
           (''model'', JStr ''gpt-4''), (''choices'', JArr choices)]"

definition example_choice :: jsvalue where
  "example_choice =
     JObj [(''index'', JNum (Finite 0)),
           (''message'', JObj [(''role'', JStr ''assistant''), (''content'', JStr ''Hi there'')]),
           (''finish_reason'', JStr ''stop'')]"

definition ok_response :: "jsvalue \<Rightarrow> upstream_response" where
  "ok_response data =
     \<lparr> ok = True, status = 200, text_body = Inr [], json_body = Inr data \<rparr>"

definition example_engine :: "graphql_args \<Rightarrow> thrown + jsvalue" where
  "example_engine args =
     Inr (JObj [(''data'', JObj [(''hello'', JStr ''Hello from AI Chat Service!'')])])"

text \<open>\<open>OPTIONS /anything\<close>\<close>

definition options_request :: Request where
  "options_request =
     \<lparr> request_method = ''OPTIONS'', pathname = ''/anything'', searchParams = [],
       content_type = None, body = [] \<rparr>"

text \<open>\<open>POST /graphql\<close> with no \<open>Content-Type\<close> header.\<close>

definition post_without_content_type :: Request where
  "post_without_content_type =
     \<lparr> request_method = ''POST'', pathname = ''/graphql'', searchParams = [],
       content_type = None, body = ''{ hello }'' \<rparr>"

text \<open>\<open>POST /graphql\<close>, \<open>Content-Type: application/json\<close>, body \<open>{}\<close>.\<close>

definition post_without_query :: Request where
  "post_without_query =
     \<lparr> request_method = ''POST'', pathname = ''/graphql'', searchParams = [],
       content_type = Some ''application/json'', body = ''{}'' \<rparr>"

text \<open>\<open>POST /graphql\<close>, \<open>Content-Type: application/graphql\<close>, empty body.\<close>

definition post_with_empty_query :: Request where
  "post_with_empty_query =
     \<lparr> request_method = ''POST'', pathname = ''/graphql'', searchParams = [],
       content_type = Some ''application/graphql'', body = [] \<rparr>"

text \<open>\<open>GET /graphql?query={ hello }&variables={\<close>\<close>

definition get_with_malformed_variables :: Request where
  "get_with_malformed_variables =
     \<lparr> request_method = ''GET'', pathname = ''/graphql'',
       searchParams = [(''query'', ''{ hello }''), (''variables'', ''{'')],
       content_type = None, body = [] \<rparr>"

section \<open>Facts about the operator \<open>||\<close> and the constructor\<close>

lemma num_or_truthy: "num_truthy b \<Longrightarrow> num_truthy (num_or a b)"
  by (simp add: num_or_def split: option.split)

lemma str_or_nonempty: "b \<noteq> [] \<Longrightarrow> str_or a b \<noteq> []"
  by (simp add: str_or_def split: option.split)

lemma num_or_zero: "num_or (Some (Finite 0)) b = b"
  by (simp add: num_or_def num_truthy_def)

lemma str_or_empty: "str_or (Some []) b = b"
  by (simp add: str_or_def)

lemma not_truthy_zero: "\<not> num_truthy (Finite 0)"
  by (simp add: num_truthy_def)

lemma truthy_defaults: "num_truthy (Finite 1000)" "num_truthy (Finite (7 / 10))"
  by (simp_all add: num_truthy_def)

lemma service_settings_truthy:
  "num_truthy (temperature (new_ChatGPTService config))"
  "num_truthy (maxTokens (new_ChatGPTService config))"
  "defaultModel (new_ChatGPTService config) \<noteq> []"
  by (simp_all add: new_ChatGPTService_def num_or_truthy truthy_defaults str_or_nonempty)


section \<open>Facts about the completion client\<close>

lemma length_mockResponses: "length (mockResponses message) = 4"
  by (simp add: mockResponses_def)

lemma getMockResponse_template:
  assumes "0 \<le> Math_random w" and "Math_random w < 1"
  shows "\<exists>t\<in>set (mockResponses message). getMockResponse w message = JStr t"
proof -
  define i where "i = \<lfloor>Math_random w * 4\<rfloor>"
  from assms have lo: "0 \<le> i" by (simp add: i_def)
  from assms have "Math_random w * 4 < 4" by simp
  then have hi: "i < 4" by (simp add: i_def floor_less_iff)
  from lo hi have "nat i < length (mockResponses message)"
    unfolding length_mockResponses by arith
  then have "mockResponses message ! nat i \<in> set (mockResponses message)"
    by (rule nth_mem)
  moreover have "getMockResponse w message =
      (if 0 \<le> i \<and> i < 4 then JStr (mockResponses message ! nat i) else JUndefined)"
    by (simp add: getMockResponse_def length_mockResponses i_def Let_def)
  with lo hi have "getMockResponse w message = JStr (mockResponses message ! nat i)"
    by simp
  ultimately show ?thesis by blast
qed

lemma mockResponses_shape:
  "\<exists>p1 s1 p2 s2 p3 s3 p4 s4. mockResponses message =
     [p1 @ message @ s1, p2 @ message @ s2, p3 @ message @ s3, p4 @ message @ s4]"
  unfolding mockResponses_def by (intro exI) (rule refl)

lemma mock_contains_message:
  assumes "t \<in> set (mockResponses message)"
  shows "\<exists>pre suf. t = pre @ message @ suf"
proof -
  obtain p1 s1 p2 s2 p3 s3 p4 s4 where "mockResponses message =
     [p1 @ message @ s1, p2 @ message @ s2, p3 @ message @ s3, p4 @ message @ s4]"
    using mockResponses_shape by blast
  with assms have "t = p1 @ message @ s1 \<or> t = p2 @ message @ s2
      \<or> t = p3 @ message @ s3 \<or> t = p4 @ message @ s4"
    by simp
  then show ?thesis by blast
qed


lemma trim_Nil: "trim [] = []"
  by (simp add: trim_def)

lemma sendMessage_no_credential:
  assumes "apiKey this = [] \<or> trim (apiKey this) = []"
  shows "sendMessage P w this message opts = (Inr (getMockResponse w message), [])"
  using assms by (simp add: sendMessage_def)

lemma sendMessage_with_credential:
  assumes "trim (apiKey this) \<noteq> []"
  shows "sendMessage P w this message opts =
           ((case try_upstream P w (build_request this message opts) of
               Inr v \<Rightarrow> Inr v
             | Inl error \<Rightarrow> Inr (getMockResponse w message)),
            [build_request this message opts])"
proof -
  from assms have "apiKey this \<noteq> []" using trim_Nil by auto
  with assms show ?thesis by (simp add: sendMessage_def Let_def)
qed

lemma apiKey_createChatGPTService:
  "apiKey (createChatGPTService P env) = (case OPENAI_API_KEY env of None \<Rightarrow> [] | Some k \<Rightarrow> k)"
  by (simp add: createChatGPTService_def new_ChatGPTService_def str_or_def split: option.split)

lemma placeholder_reply:
  assumes "0 \<le> Math_random w" and "Math_random w < 1"
  shows "\<exists>t\<in>set (mockResponses message).
           getMockResponse w message = JStr t \<and> (\<exists>pre suf. t = pre @ message @ suf)"
  using getMockResponse_template [OF assms] mock_contains_message by blast

lemma sendMessage_returns: "\<exists>v. fst (sendMessage P w this message opts) = Inr v"
  by (simp add: sendMessage_def Let_def split: sum.split)

lemma try_upstream_transport_error:
  "upstream w rq = Inl e \<Longrightarrow> try_upstream P w rq = Inl e"
  by (simp add: try_upstream_def and_then_def)

lemma try_upstream_bad_status:
  "upstream w rq = Inr r \<Longrightarrow> \<not> ok r \<Longrightarrow> \<exists>e. try_upstream P w rq = Inl e"
  by (simp add: try_upstream_def and_then_def split: sum.split)

lemma try_upstream_malformed:
  "upstream w rq = Inr r \<Longrightarrow> ok r \<Longrightarrow> json_body r = Inl e \<Longrightarrow> try_upstream P w rq = Inl e"
  by (simp add: try_upstream_def and_then_def)

lemma try_upstream_ok:
  "upstream w rq = Inr r \<Longrightarrow> ok r \<Longrightarrow> json_body r = Inr data \<Longrightarrow>
     try_upstream P w rq = first_choice_content P data"
  by (simp add: try_upstream_def and_then_def)

lemma first_choice_content_none:
  "map_of kvs ''choices'' = Some (JArr []) \<Longrightarrow>
     first_choice_content P (JObj kvs) = Inl (ErrorObject ''Error'' ''No response from ChatGPT API'')"
  by (simp add: first_choice_content_def and_then_def num_gt_zero_def)

lemma first_choice_content_some:
  "map_of kvs ''choices'' = Some (JArr (JObj ckv # rest)) \<Longrightarrow>
   map_of ckv ''message'' = Some (JObj mkv) \<Longrightarrow>
   map_of mkv ''content'' = Some v \<Longrightarrow>
     first_choice_content P (JObj kvs) = Inr v"
  by (simp add: first_choice_content_def and_then_def num_gt_zero_def)

lemma fallback_reply:
  assumes "trim (apiKey this) \<noteq> []" and "0 \<le> Math_random w" and "Math_random w < 1"
    and "try_upstream P w (build_request this message opts) = Inl e"
  shows "\<exists>t\<in>set (mockResponses message).
           fst (sendMessage P w this message opts) = Inr (JStr t)"
  using getMockResponse_template [OF assms(2,3)]
  by (simp add: sendMessage_with_credential [OF assms(1)] assms(4))

lemma sent_with_credential:
  "trim (apiKey this) \<noteq> [] \<Longrightarrow>
     snd (sendMessage P w this message opts) = [build_request this message opts]"
  by (simp add: sendMessage_with_credential)

lemma build_request_body:
  "http_body (build_request this message opts) =
     \<lparr> req_model = str_or (opt_field opt_model opts) (defaultModel this),
       req_messages = build_messages message opts,
       req_max_tokens = maxTokens this,
       req_temperature = temperature this \<rparr>"
  by (simp add: build_request_def)

section \<open>Facts about the example inputs\<close>

lemma trim_example_key: "trim ''sk-test'' = ''sk-test''"
  by (simp add: trim_def is_space_def)

lemma apiKey_example_service: "apiKey example_service = ''sk-test''"
  by (simp add: example_service_def new_ChatGPTService_def str_or_def)

lemma example_service_configured: "trim (apiKey example_service) \<noteq> []"
  by (simp add: apiKey_example_service trim_example_key)

lemma defaultModel_example_service: "defaultModel example_service = ''gpt-4''"
  by (simp add: example_service_def new_ChatGPTService_def str_or_def)

lemma mock_at_half:
  assumes "Math_random w = 1 / 2"
  shows "getMockResponse w message = JStr (mockResponses message ! 2)"
  unfolding getMockResponse_def length_mockResponses assms by simp

lemma unreachable_random: "Math_random unreachable_world = 1 / 2"
  by (simp add: unreachable_world_def)

lemma unreachable_fails:
  "try_upstream P unreachable_world rq = Inl (ErrorObject ''TypeError'' ''fetch failed'')"
  by (simp add: try_upstream_def and_then_def unreachable_world_def)

lemma sendMessage_unreachable:
  "sendMessage P unreachable_world example_service message opts =
     (Inr (JStr (mockResponses message ! 2)), [build_request example_service message opts])"
  by (simp add: sendMessage_with_credential [OF example_service_configured] unreachable_fails
      mock_at_half [OF unreachable_random])

lemma unreachable_random_range:
  "0 \<le> Math_random unreachable_world" "Math_random unreachable_world < 1"
  by (simp_all add: unreachable_random)

lemma answering_world_simps:
  "upstream (answering_world r) rq = Inr r"
  "0 \<le> Math_random (answering_world r)"
  "Math_random (answering_world r) < 1"
  by (simp_all add: answering_world_def)

lemma ok_response_simps:
  "ok (ok_response data)"
  "json_body (ok_response data) = Inr data"
  by (simp_all add: ok_response_def)

section \<open>Facts about the resolvers and the gateway\<close>

lemma Mutation_sendMessage_result:
  "sendMessage P w chatService (in_message input)
       (Some \<lparr> opt_conversationId = in_conversationId input,
               opt_model = Some (str_or (in_model input) ''gpt-3.5-turbo''),
               opt_systemPrompt = None \<rparr>) = (Inr response, sent) \<Longrightarrow>
   Mutation_sendMessage P w c chatService input =
     (Inr \<lparr> res_id = generateId c, res_message = response, res_timestamp = now_iso c,
            res_model = str_or (in_model input) ''gpt-3.5-turbo'' \<rparr>, sent)"
  by (simp add: Mutation_sendMessage_def)

lemma requested_model:
  "str_or (in_model input) ''gpt-3.5-turbo'' =
     (case in_model input of
        None \<Rightarrow> ''gpt-3.5-turbo''
      | Some m \<Rightarrow> if m = [] then ''gpt-3.5-turbo'' else m)"
  by (simp add: str_or_def split: option.split)

lemma requested_model_nonempty: "str_or (in_model input) ''gpt-3.5-turbo'' \<noteq> []"
  by (rule str_or_nonempty) simp

lemma execute_graphql_headers:
  "execute_graphql P graphql request env g = Inr r \<Longrightarrow> rsp_headers r = json_headers"
  by (auto simp: execute_graphql_def and_then_def Let_def split: sum.splits)

lemma fetch_headers:
  assumes "fetch P graphql c request env = Inr r"
  shows "rsp_headers r = corsHeaders \<or> rsp_headers r = json_headers
         \<or> rsp_headers r = (''Content-Type'', ''text/html'') # corsHeaders"
proof (cases "request_method request = ''OPTIONS''")
  case True
  with assms show ?thesis by (auto simp: fetch_def handleCORS_def)
next
  case opt: False
  show ?thesis
  proof (cases "pathname request = ''/health''")
    case True
    with opt assms show ?thesis by (auto simp: fetch_def handleCORS_def)
  next
    case nh: False
    show ?thesis
    proof (cases "pathname request = ''/graphql''")
      case True
      with opt nh assms have *: "and_then (parseGraphQLRequest P request) (\<lambda>graphqlRequest.
              if \<not> truthy graphqlRequest then
                Inr \<lparr> rsp_status = 400, rsp_headers = json_headers,
                      rsp_body = JsonBody (JObj [(''error'', JStr ''Invalid GraphQL request'')]) \<rparr>
              else
                (case execute_graphql P graphql request env graphqlRequest of
                   Inr response \<Rightarrow> Inr response
                 | Inl error \<Rightarrow>
                     Inr \<lparr> rsp_status = 500, rsp_headers = json_headers,
                           rsp_body = JsonBody (JObj
                             [(''error'', JStr ''Internal server error''),
                              (''message'',
                                 JStr (case error of
                                         ErrorObject n m \<Rightarrow> m
                                       | OtherValue x \<Rightarrow> ''Unknown error''))]) \<rparr>)) = Inr r"
        by (simp add: fetch_def handleCORS_def)
      then show ?thesis
        by (auto simp: and_then_def split: sum.splits if_splits dest: execute_graphql_headers)
    next
      case False
      with opt nh assms show ?thesis
        by (auto simp: fetch_def handleCORS_def split: if_splits)
    qed
  qed
qed

lemma parse_get_malformed_variables:
  assumes "request_method request = ''GET''"
    and "map_of (searchParams request) ''query'' = Some q" and "q \<noteq> []"
    and "map_of (searchParams request) ''variables'' = Some v" and "v \<noteq> []"
    and "JSON_parse P v = None"
  shows "parseGraphQLRequest P request = Inl SyntaxError"
  using assms by (simp add: parseGraphQLRequest_def and_then_def)

lemma fetch_graphql_route:
  assumes "request_method request \<noteq> ''OPTIONS''" and "pathname request = ''/graphql''"
  shows "fetch P graphql c request env =
     and_then (parseGraphQLRequest P request) (\<lambda>graphqlRequest.
       if \<not> truthy graphqlRequest then
         Inr \<lparr> rsp_status = 400, rsp_headers = json_headers,
               rsp_body = JsonBody (JObj [(''error'', JStr ''Invalid GraphQL request'')]) \<rparr>
       else
         (case execute_graphql P graphql request env graphqlRequest of
            Inr response \<Rightarrow> Inr response
          | Inl error \<Rightarrow>
              Inr \<lparr> rsp_status = 500, rsp_headers = json_headers,
                    rsp_body = JsonBody (JObj
                      [(''error'', JStr ''Internal server error''),
                       (''message'',
                          JStr (case error of
                                  ErrorObject n m \<Rightarrow> m
                                | OtherValue x \<Rightarrow> ''Unknown error''))]) \<rparr>))"
  using assms by (simp add: fetch_def handleCORS_def)

lemma executed_status:
  "\<exists>r. (case execute_graphql P graphql request env g of
                 Inr response \<Rightarrow> Inr response
               | Inl error \<Rightarrow>
                   Inr \<lparr> rsp_status = 500, rsp_headers = json_headers,
                         rsp_body = JsonBody (JObj
                           [(''error'', JStr ''Internal server error''),
                            (''message'',
                               JStr (case error of
                                       ErrorObject n m \<Rightarrow> m
                                     | OtherValue x \<Rightarrow> ''Unknown error''))]) \<rparr>)
              = (Inr r :: thrown + Response) \<and> (rsp_status r = 200 \<or> rsp_status r = 500)"
proof (cases "execute_graphql P graphql request env g")
  case (Inl e)
  then show ?thesis by simp
next
  case (Inr r)
  then have "rsp_status r = 200"
    by (auto simp: execute_graphql_def and_then_def Let_def split: sum.splits)
  with Inr show ?thesis by simp
qed

section \<open>The claims\<close>

text \<open>
  Claim C1. \<open>sendMessage\<close> never raises an error to its caller, whatever the message,
  the options, the platform and the upstream do. With a credential configured, every
  upstream failure is answered by one of the four placeholder templates instantiated with
  the message: a transport error (\<open>fetch\<close> rejects), a non-success status, a malformed
  body (\<open>json()\<close> rejects), a well-formed body with zero choices, and any other exception
  raised inside the \<open>try\<close> block. \<open>Math.random()\<close> is taken to return a value in
  \<open>[0, 1)\<close>, as the platform promises.
\<close>

theorem sendMessage_never_raises:
  "(\<exists>v. fst (sendMessage P w this message opts) = Inr v)
   \<and> (trim (apiKey this) \<noteq> [] \<and> 0 \<le> Math_random w \<and> Math_random w < 1 \<and>
        ((\<exists>e. upstream w (build_request this message opts) = Inl e)
         \<or> (\<exists>r. upstream w (build_request this message opts) = Inr r \<and> \<not> ok r)
         \<or> (\<exists>r e. upstream w (build_request this message opts) = Inr r \<and> ok r \<and>
                    json_body r = Inl e)
         \<or> (\<exists>r kvs. upstream w (build_request this message opts) = Inr r \<and> ok r \<and>
                    json_body r = Inr (JObj kvs) \<and> map_of kvs ''choices'' = Some (JArr []))
         \<or> (\<exists>e. try_upstream P w (build_request this message opts) = Inl e))
       \<longrightarrow> (\<exists>t\<in>set (mockResponses message).
              fst (sendMessage P w this message opts) = Inr (JStr t)))"
proof (intro conjI impI)
  show "\<exists>v. fst (sendMessage P w this message opts) = Inr v"
    by (rule sendMessage_returns)
next
  let ?rq = "build_request this message opts"
  assume h: "trim (apiKey this) \<noteq> [] \<and> 0 \<le> Math_random w \<and> Math_random w < 1 \<and>
        ((\<exists>e. upstream w ?rq = Inl e)
         \<or> (\<exists>r. upstream w ?rq = Inr r \<and> \<not> ok r)
         \<or> (\<exists>r e. upstream w ?rq = Inr r \<and> ok r \<and> json_body r = Inl e)
         \<or> (\<exists>r kvs. upstream w ?rq = Inr r \<and> ok r \<and>
                    json_body r = Inr (JObj kvs) \<and> map_of kvs ''choices'' = Some (JArr []))
         \<or> (\<exists>e. try_upstream P w ?rq = Inl e))"
  then have key: "trim (apiKey this) \<noteq> []" and lo: "0 \<le> Math_random w"
    and hi: "Math_random w < 1" by simp_all
  from h consider
      (transport) e where "upstream w ?rq = Inl e"
    | (status) r where "upstream w ?rq = Inr r" "\<not> ok r"
    | (malformed) r e where "upstream w ?rq = Inr r" "ok r" "json_body r = Inl e"
    | (empty) r kvs where "upstream w ?rq = Inr r" "ok r" "json_body r = Inr (JObj kvs)"
        "map_of kvs ''choices'' = Some (JArr [])"
    | (other) e where "try_upstream P w ?rq = Inl e"
    by blast
  then have "\<exists>e. try_upstream P w ?rq = Inl e"
  proof cases
    case transport
    then show ?thesis by (simp add: try_upstream_transport_error)
  next
    case status
    then show ?thesis by (rule try_upstream_bad_status)
  next
    case malformed
    then show ?thesis by (simp add: try_upstream_malformed)
  next
    case empty
    then show ?thesis by (simp add: try_upstream_ok first_choice_content_none)
  next
    case other
    then show ?thesis by blast
  qed
  then obtain e where "try_upstream P w ?rq = Inl e" ..
  with key lo hi show "\<exists>t\<in>set (mockResponses message).
      fst (sendMessage P w this message opts) = Inr (JStr t)"
    by (rule fallback_reply)
qed

theorem sendMessage_never_raises_witness:
  "trim (apiKey example_service) \<noteq> []
   \<and> 0 \<le> Math_random unreachable_world \<and> Math_random unreachable_world < 1
   \<and> upstream unreachable_world (build_request example_service ''hi'' None)
       = Inl (ErrorObject ''TypeError'' ''fetch failed'')
   \<and> (\<exists>v. fst (sendMessage example_platform unreachable_world example_service ''hi'' None)
            = Inr v)
   \<and> (\<exists>t\<in>set (mockResponses ''hi'').
         fst (sendMessage example_platform unreachable_world example_service ''hi'' None)
           = Inr (JStr t))"
proof -
  have up: "upstream unreachable_world (build_request example_service ''hi'' None)
       = Inl (ErrorObject ''TypeError'' ''fetch failed'')"
    by (simp add: unreachable_world_def)
  note inst = sendMessage_never_raises
    [where P = example_platform and w = unreachable_world and this = example_service
       and message = "''hi''" and opts = None]
  from inst example_service_configured unreachable_random_range up
  have "(\<exists>v. fst (sendMessage example_platform unreachable_world example_service ''hi'' None)
            = Inr v)
   \<and> (\<exists>t\<in>set (mockResponses ''hi'').
         fst (sendMessage example_platform unreachable_world example_service ''hi'' None)
           = Inr (JStr t))"
    by blast
  with example_service_configured unreachable_random_range up show ?thesis
    by blast
qed

text \<open>
  Claim C2. If the credential is absent or blank after trimming, \<open>sendMessage\<close> sends
  nothing to the upstream and returns one of the placeholder templates, which contains
  the input text verbatim. The first part is about any service whose key is empty or
  blank; the second about the service the factory builds from an environment whose
  \<open>OPENAI_API_KEY\<close> is absent or blank.
\<close>

theorem no_credential_placeholder_without_network:
  assumes "0 \<le> Math_random w" and "Math_random w < 1"
  shows "(apiKey this = [] \<or> trim (apiKey this) = [] \<longrightarrow>
            snd (sendMessage P w this message opts) = [] \<and>
            (\<exists>t\<in>set (mockResponses message).
               fst (sendMessage P w this message opts) = Inr (JStr t) \<and>
               (\<exists>pre suf. t = pre @ message @ suf)))
       \<and> (OPENAI_API_KEY env = None \<or> (\<exists>k. OPENAI_API_KEY env = Some k \<and> trim k = []) \<longrightarrow>
            snd (sendMessage P w (createChatGPTService P env) message opts) = [] \<and>
            (\<exists>t\<in>set (mockResponses message).
               fst (sendMessage P w (createChatGPTService P env) message opts) = Inr (JStr t) \<and>
               (\<exists>pre suf. t = pre @ message @ suf)))"
proof (intro conjI impI)
  assume blank: "apiKey this = [] \<or> trim (apiKey this) = []"
  show "snd (sendMessage P w this message opts) = []"
    by (simp add: sendMessage_no_credential [OF blank])
  show "\<exists>t\<in>set (mockResponses message).
          fst (sendMessage P w this message opts) = Inr (JStr t) \<and>
          (\<exists>pre suf. t = pre @ message @ suf)"
    using placeholder_reply [OF assms] by (simp add: sendMessage_no_credential [OF blank])
next
  assume "OPENAI_API_KEY env = None \<or> (\<exists>k. OPENAI_API_KEY env = Some k \<and> trim k = [])"
  then have blank: "apiKey (createChatGPTService P env) = []
      \<or> trim (apiKey (createChatGPTService P env)) = []"
    by (auto simp: apiKey_createChatGPTService)
  show "snd (sendMessage P w (createChatGPTService P env) message opts) = []"
    by (simp add: sendMessage_no_credential [OF blank])
  show "\<exists>t\<in>set (mockResponses message).
          fst (sendMessage P w (createChatGPTService P env) message opts) = Inr (JStr t) \<and>
          (\<exists>pre suf. t = pre @ message @ suf)"
    using placeholder_reply [OF assms] by (simp add: sendMessage_no_credential [OF blank])
qed

theorem no_credential_placeholder_without_network_witness:
  "0 \<le> Math_random unreachable_world \<and> Math_random unreachable_world < 1
   \<and> trim (apiKey (updateApiKey example_service ''  '')) = []
   \<and> snd (sendMessage example_platform unreachable_world
             (updateApiKey example_service ''  '') ''hi'' None) = []
   \<and> (\<exists>t\<in>set (mockResponses ''hi'').
         fst (sendMessage example_platform unreachable_world
                (updateApiKey example_service ''  '') ''hi'' None) = Inr (JStr t) \<and>
         (\<exists>pre suf. t = pre @ ''hi'' @ suf))
   \<and> OPENAI_API_KEY (example_env\<lparr>OPENAI_API_KEY := None\<rparr>) = None
   \<and> snd (sendMessage example_platform unreachable_world
             (createChatGPTService example_platform (example_env\<lparr>OPENAI_API_KEY := None\<rparr>))
             ''hi'' None) = []"
proof -
  have blank: "trim (apiKey (updateApiKey example_service ''  '')) = []"
    by (simp add: updateApiKey_def trim_def is_space_def)
  have absent: "OPENAI_API_KEY (example_env\<lparr>OPENAI_API_KEY := None\<rparr>) = None"
    by simp
  note inst = no_credential_placeholder_without_network
    [OF unreachable_random_range, where P = example_platform
       and this = "updateApiKey example_service ''  ''" and message = "''hi''" and opts = None
       and env = "example_env\<lparr>OPENAI_API_KEY := None\<rparr>"]
  from inst blank absent
  have "snd (sendMessage example_platform unreachable_world
             (updateApiKey example_service ''  '') ''hi'' None) = []
   \<and> (\<exists>t\<in>set (mockResponses ''hi'').
         fst (sendMessage example_platform unreachable_world
                (updateApiKey example_service ''  '') ''hi'' None) = Inr (JStr t) \<and>
         (\<exists>pre suf. t = pre @ ''hi'' @ suf))
   \<and> snd (sendMessage example_platform unreachable_world
             (createChatGPTService example_platform (example_env\<lparr>OPENAI_API_KEY := None\<rparr>))
             ''hi'' None) = []"
    by blast
  with unreachable_random_range blank absent show ?thesis by blast
qed

text \<open>
  Claim C3. With a credential configured, when the upstream answers with a success status
  and a well-formed JSON body whose \<open>choices\<close> array has at least one element, the
  result is exactly the \<open>content\<close> of the first choice's \<open>message\<close>, whatever value
  that is; when the \<open>choices\<close> array is empty the \<open>try\<close> block throws
  \<open>No response from ChatGPT API\<close> and the result is a placeholder.
\<close>

theorem first_choice_content_returned:
  "(trim (apiKey this) \<noteq> [] \<and>
    upstream w (build_request this message opts) = Inr r \<and> ok r \<and>
    json_body r = Inr (JObj kvs) \<and>
    map_of kvs ''choices'' = Some (JArr (JObj ckv # rest)) \<and>
    map_of ckv ''message'' = Some (JObj mkv) \<and>
    map_of mkv ''content'' = Some v
    \<longrightarrow> fst (sendMessage P w this message opts) = Inr v)
   \<and> (trim (apiKey this) \<noteq> [] \<and> 0 \<le> Math_random w \<and> Math_random w < 1 \<and>
      upstream w (build_request this message opts) = Inr r \<and> ok r \<and>
      json_body r = Inr (JObj kvs) \<and>
      map_of kvs ''choices'' = Some (JArr [])
    \<longrightarrow> try_upstream P w (build_request this message opts)
            = Inl (ErrorObject ''Error'' ''No response from ChatGPT API'') \<and>
          (\<exists>t\<in>set (mockResponses message).
             fst (sendMessage P w this message opts) = Inr (JStr t)))"
proof (intro conjI impI)
  assume h: "trim (apiKey this) \<noteq> [] \<and>
    upstream w (build_request this message opts) = Inr r \<and> ok r \<and>
    json_body r = Inr (JObj kvs) \<and>
    map_of kvs ''choices'' = Some (JArr (JObj ckv # rest)) \<and>
    map_of ckv ''message'' = Some (JObj mkv) \<and>
    map_of mkv ''content'' = Some v"
  then have "try_upstream P w (build_request this message opts) = Inr v"
    by (simp add: try_upstream_ok first_choice_content_some)
  with h show "fst (sendMessage P w this message opts) = Inr v"
    by (simp add: sendMessage_with_credential)
next
  assume h: "trim (apiKey this) \<noteq> [] \<and> 0 \<le> Math_random w \<and> Math_random w < 1 \<and>
      upstream w (build_request this message opts) = Inr r \<and> ok r \<and>
      json_body r = Inr (JObj kvs) \<and>
      map_of kvs ''choices'' = Some (JArr [])"
  then show t: "try_upstream P w (build_request this message opts)
            = Inl (ErrorObject ''Error'' ''No response from ChatGPT API'')"
    by (simp add: try_upstream_ok first_choice_content_none)
  from h have key: "trim (apiKey this) \<noteq> []" and lo: "0 \<le> Math_random w"
    and hi: "Math_random w < 1" by simp_all
  from key lo hi t show "\<exists>t\<in>set (mockResponses message).
             fst (sendMessage P w this message opts) = Inr (JStr t)"
    by (rule fallback_reply)
qed

theorem first_choice_content_returned_witness:
  "trim (apiKey example_service) \<noteq> []
   \<and> fst (sendMessage example_platform
            (answering_world (ok_response (completion_body [example_choice])))
            example_service ''hi'' None) = Inr (JStr ''Hi there'')
   \<and> (\<exists>t\<in>set (mockResponses ''hi'').
         fst (sendMessage example_platform
                (answering_world (ok_response (completion_body [])))
                example_service ''hi'' None) = Inr (JStr t))"
proof -
  let ?ckv = "[(''index'', JNum (Finite 0)),
               (''message'', JObj [(''role'', JStr ''assistant''), (''content'', JStr ''Hi there'')]),
               (''finish_reason'', JStr ''stop'')]"
  let ?mkv = "[(''role'', JStr ''assistant''), (''content'', JStr ''Hi there'')]"
  let ?kvs1 = "[(''id'', JStr ''chatcmpl-1''), (''object'', JStr ''chat.completion''),
                (''model'', JStr ''gpt-4''), (''choices'', JArr [example_choice])]"
  let ?kvs0 = "[(''id'', JStr ''chatcmpl-1''), (''object'', JStr ''chat.completion''),
                (''model'', JStr ''gpt-4''), (''choices'', JArr [])]"
  have b1: "completion_body [example_choice] = JObj ?kvs1"
    by (simp add: completion_body_def)
  have b0: "completion_body [] = JObj ?kvs0"
    by (simp add: completion_body_def)
  have c1: "map_of ?kvs1 ''choices'' = Some (JArr (JObj ?ckv # []))"
    by (simp add: example_choice_def)
  have c0: "map_of ?kvs0 ''choices'' = Some (JArr [])"
    by simp
  have m: "map_of ?ckv ''message'' = Some (JObj ?mkv)"
    by simp
  have v: "map_of ?mkv ''content'' = Some (JStr ''Hi there'')"
    by simp
  note one = first_choice_content_returned
    [where P = example_platform and this = example_service and message = "''hi''"
       and opts = None and w = "answering_world (ok_response (completion_body [example_choice]))"
       and r = "ok_response (completion_body [example_choice])"
       and kvs = ?kvs1 and ckv = ?ckv and rest = "[]" and mkv = ?mkv
       and v = "JStr ''Hi there''", THEN conjunct1]
  have r1: "fst (sendMessage example_platform
            (answering_world (ok_response (completion_body [example_choice])))
            example_service ''hi'' None) = Inr (JStr ''Hi there'')"
    by (rule one [rule_format])
      (simp only: example_service_configured answering_world_simps ok_response_simps
        b1 c1 m v simp_thms)
  note none = first_choice_content_returned
    [where P = example_platform and this = example_service and message = "''hi''"
       and opts = None and w = "answering_world (ok_response (completion_body []))"
       and r = "ok_response (completion_body [])"
       and kvs = ?kvs0, THEN conjunct2]
  have r0: "\<exists>t\<in>set (mockResponses ''hi'').
         fst (sendMessage example_platform
                (answering_world (ok_response (completion_body [])))
                example_service ''hi'' None) = Inr (JStr t)"
    by (rule none [rule_format, THEN conjunct2])
      (simp only: example_service_configured answering_world_simps ok_response_simps
        b0 c0 simp_thms)
  from example_service_configured r1 r0 show ?thesis by blast
qed

text \<open>
  Claim C4 fails on the code. A \<open>POST /graphql\<close> whose JSON body is \<open>{}\<close> (no
  \<open>query\<close> field), and one whose \<open>application/graphql\<close> body is empty (an empty
  query), are not answered with status 400: the decoded request is a truthy object, so the
  engine is run on it and the response has status 200, or 500 if the engine throws.
\<close>

theorem post_without_query_is_executed:
  "(\<exists>r. fetch example_platform graphql c post_without_query env = Inr r \<and>
         (rsp_status r = 200 \<or> rsp_status r = 500))
   \<and> parseGraphQLRequest example_platform post_without_query = Inr (JObj [])
   \<and> (\<exists>r. fetch example_platform graphql c post_with_empty_query env = Inr r \<and>
         (rsp_status r = 200 \<or> rsp_status r = 500))
   \<and> parseGraphQLRequest example_platform post_with_empty_query
       = Inr (JObj [(''query'', JStr [])])"
proof -
  have p1: "parseGraphQLRequest example_platform post_without_query = Inr (JObj [])"
    by (simp add: parseGraphQLRequest_def post_without_query_def header_includes_def
        example_platform_def)
  have p2: "parseGraphQLRequest example_platform post_with_empty_query
       = Inr (JObj [(''query'', JStr [])])"
    by (simp add: parseGraphQLRequest_def post_with_empty_query_def header_includes_def)
  have m1: "request_method post_without_query \<noteq> ''OPTIONS''"
    "pathname post_without_query = ''/graphql''"
    by (simp_all add: post_without_query_def)
  have f1: "\<exists>r. fetch example_platform graphql c post_without_query env = Inr r \<and>
         (rsp_status r = 200 \<or> rsp_status r = 500)"
    using executed_status
      [where g = "JObj []" and P = example_platform and graphql = graphql
         and request = post_without_query and env = env]
    by (simp add: fetch_graphql_route [OF m1] p1 and_then_def)
  have m2: "request_method post_with_empty_query \<noteq> ''OPTIONS''"
    "pathname post_with_empty_query = ''/graphql''"
    by (simp_all add: post_with_empty_query_def)
  have f2: "\<exists>r. fetch example_platform graphql c post_with_empty_query env = Inr r \<and>
         (rsp_status r = 200 \<or> rsp_status r = 500)"
    using executed_status
      [where g = "JObj [(''query'', JStr [])]" and P = example_platform and graphql = graphql
         and request = post_with_empty_query and env = env]
    by (simp add: fetch_graphql_route [OF m2] p2 and_then_def)
  from f1 p1 f2 p2 show ?thesis by blast
qed

text \<open>
  Claim C5. Every response the gateway produces, on every path, for every method and
  outcome, carries the three cross-origin headers.
\<close>

theorem every_response_carries_cors_headers:
  "fetch P graphql c request env = Inr r \<longrightarrow>
     map_of (rsp_headers r) ''Access-Control-Allow-Origin'' = Some ''*'' \<and>
     map_of (rsp_headers r) ''Access-Control-Allow-Methods'' = Some ''GET, POST, OPTIONS'' \<and>
     map_of (rsp_headers r) ''Access-Control-Allow-Headers'' = Some ''Content-Type, Authorization''"
proof
  assume "fetch P graphql c request env = Inr r"
  then consider "rsp_headers r = corsHeaders" | "rsp_headers r = json_headers"
    | "rsp_headers r = (''Content-Type'', ''text/html'') # corsHeaders"
    using fetch_headers by blast
  then show "map_of (rsp_headers r) ''Access-Control-Allow-Origin'' = Some ''*'' \<and>
     map_of (rsp_headers r) ''Access-Control-Allow-Methods'' = Some ''GET, POST, OPTIONS'' \<and>
     map_of (rsp_headers r) ''Access-Control-Allow-Headers'' = Some ''Content-Type, Authorization''"
    by cases (simp_all add: corsHeaders_def json_headers_def)
qed

theorem every_response_carries_cors_headers_witness:
  "fetch example_platform example_engine example_clock post_without_content_type example_env
     = Inr \<lparr> rsp_status = 400, rsp_headers = json_headers,
             rsp_body = JsonBody (JObj [(''error'', JStr ''Invalid GraphQL request'')]) \<rparr>
   \<and> map_of json_headers ''Access-Control-Allow-Origin'' = Some ''*''
   \<and> map_of json_headers ''Access-Control-Allow-Methods'' = Some ''GET, POST, OPTIONS''
   \<and> map_of json_headers ''Access-Control-Allow-Headers'' = Some ''Content-Type, Authorization''"
proof -
  have p: "parseGraphQLRequest example_platform post_without_content_type = Inr JNull"
    by (simp add: parseGraphQLRequest_def post_without_content_type_def header_includes_def)
  have m: "request_method post_without_content_type \<noteq> ''OPTIONS''"
    "pathname post_without_content_type = ''/graphql''"
    by (simp_all add: post_without_content_type_def)
  have f: "fetch example_platform example_engine example_clock post_without_content_type
      example_env
     = Inr \<lparr> rsp_status = 400, rsp_headers = json_headers,
             rsp_body = JsonBody (JObj [(''error'', JStr ''Invalid GraphQL request'')]) \<rparr>"
    by (simp add: fetch_graphql_route [OF m] p and_then_def)
  from every_response_carries_cors_headers [rule_format, OF f] f show ?thesis
    by simp
qed

text \<open>
  Claim C6, as amended. On the upstream path \<open>sendMessage\<close> sends exactly one request.
  Its turn sequence is a system turn from \<open>options.systemPrompt\<close> first if and only if
  a non-empty one is provided, then exactly one user turn with the message. Its model is
  \<open>options.model\<close> when a non-empty one is provided and the configured default model
  otherwise; its \<open>max_tokens\<close> and \<open>temperature\<close> are the configured values.
\<close>

theorem upstream_request_turns_and_model:
  "trim (apiKey this) \<noteq> [] \<longrightarrow>
     (\<exists>rq. snd (sendMessage P w this message opts) = [rq] \<and>
        req_messages (http_body rq) =
          (case opts of
             None \<Rightarrow> []
           | Some z \<Rightarrow>
               (case opt_systemPrompt z of
                  None \<Rightarrow> []
                | Some p \<Rightarrow> if p = [] then [] else [\<lparr>role = system, content = p\<rparr>]))
          @ [\<lparr>role = user, content = message\<rparr>] \<and>
        req_model (http_body rq) =
          (case opts of
             None \<Rightarrow> defaultModel this
           | Some z \<Rightarrow>
               (case opt_model z of
                  None \<Rightarrow> defaultModel this
                | Some m \<Rightarrow> if m = [] then defaultModel this else m)) \<and>
        req_max_tokens (http_body rq) = maxTokens this \<and>
        req_temperature (http_body rq) = temperature this)"
proof
  assume key: "trim (apiKey this) \<noteq> []"
  have 1: "req_messages (http_body (build_request this message opts)) =
          (case opts of
             None \<Rightarrow> []
           | Some z \<Rightarrow>
               (case opt_systemPrompt z of
                  None \<Rightarrow> []
                | Some p \<Rightarrow> if p = [] then [] else [\<lparr>role = system, content = p\<rparr>]))
          @ [\<lparr>role = user, content = message\<rparr>]"
    by (simp add: build_request_body build_messages_def opt_field_def split: option.split)
  have 2: "req_model (http_body (build_request this message opts)) =
          (case opts of
             None \<Rightarrow> defaultModel this
           | Some z \<Rightarrow>
               (case opt_model z of
                  None \<Rightarrow> defaultModel this
                | Some m \<Rightarrow> if m = [] then defaultModel this else m))"
    by (simp add: build_request_body str_or_def opt_field_def split: option.split)
  have 3: "req_max_tokens (http_body (build_request this message opts)) = maxTokens this"
    "req_temperature (http_body (build_request this message opts)) = temperature this"
    by (simp_all add: build_request_body)
  from sent_with_credential [OF key] 1 2 3
  show "\<exists>rq. snd (sendMessage P w this message opts) = [rq] \<and>
        req_messages (http_body rq) =
          (case opts of
             None \<Rightarrow> []
           | Some z \<Rightarrow>
               (case opt_systemPrompt z of
                  None \<Rightarrow> []
                | Some p \<Rightarrow> if p = [] then [] else [\<lparr>role = system, content = p\<rparr>]))
          @ [\<lparr>role = user, content = message\<rparr>] \<and>
        req_model (http_body rq) =
          (case opts of
             None \<Rightarrow> defaultModel this
           | Some z \<Rightarrow>
               (case opt_model z of
                  None \<Rightarrow> defaultModel this
                | Some m \<Rightarrow> if m = [] then defaultModel this else m)) \<and>
        req_max_tokens (http_body rq) = maxTokens this \<and>
        req_temperature (http_body rq) = temperature this"
    by blast
qed

theorem upstream_request_turns_and_model_witness:
  "trim (apiKey example_service) \<noteq> []
   \<and> (\<exists>rq. snd (sendMessage example_platform unreachable_world example_service ''hi''
                 (Some \<lparr>opt_conversationId = None, opt_model = Some ''gpt-4o'',
                        opt_systemPrompt = Some ''Be brief''\<rparr>)) = [rq] \<and>
        req_messages (http_body rq) =
          [\<lparr>role = system, content = ''Be brief''\<rparr>, \<lparr>role = user, content = ''hi''\<rparr>] \<and>
        req_model (http_body rq) = ''gpt-4o'' \<and>
        req_max_tokens (http_body rq) = Finite 256 \<and>
        req_temperature (http_body rq) = Finite (1 / 2))"
proof -
  have s: "maxTokens example_service = Finite 256" "temperature example_service = Finite (1 / 2)"
    by (simp_all add: example_service_def new_ChatGPTService_def num_or_def num_truthy_def)
  note inst = upstream_request_turns_and_model
    [rule_format, OF example_service_configured, where P = example_platform
       and w = unreachable_world and message = "''hi''"
       and opts = "Some \<lparr>opt_conversationId = None, opt_model = Some ''gpt-4o'',
                        opt_systemPrompt = Some ''Be brief''\<rparr>"]
  from inst have "\<exists>rq. snd (sendMessage example_platform unreachable_world example_service ''hi''
                 (Some \<lparr>opt_conversationId = None, opt_model = Some ''gpt-4o'',
                        opt_systemPrompt = Some ''Be brief''\<rparr>)) = [rq] \<and>
        req_messages (http_body rq) =
          [\<lparr>role = system, content = ''Be brief''\<rparr>, \<lparr>role = user, content = ''hi''\<rparr>] \<and>
        req_model (http_body rq) = ''gpt-4o'' \<and>
        req_max_tokens (http_body rq) = Finite 256 \<and>
        req_temperature (http_body rq) = Finite (1 / 2)"
    by (simp add: s)
  with example_service_configured show ?thesis by blast
qed

text \<open>
  The claim as stated (a system turn if and only if a system prompt is provided, the
  model \<open>options.model\<close> when provided) fails where the option is provided but empty:
  with \<open>systemPrompt = ""\<close> and \<open>model = ""\<close> the request has the user turn only,
  not a system turn with empty content, and its model is the configured default
  \<open>gpt-4\<close>, not the empty string.
\<close>

theorem empty_system_prompt_gives_no_system_turn:
  "map (req_messages \<circ> http_body)
     (snd (sendMessage example_platform unreachable_world example_service ''hi''
        (Some \<lparr>opt_conversationId = None, opt_model = Some [], opt_systemPrompt = Some []\<rparr>)))
     = [[\<lparr>role = user, content = ''hi''\<rparr>]]
   \<and> map (req_messages \<circ> http_body)
     (snd (sendMessage example_platform unreachable_world example_service ''hi''
        (Some \<lparr>opt_conversationId = None, opt_model = Some [], opt_systemPrompt = Some []\<rparr>)))
     \<noteq> [[\<lparr>role = system, content = []\<rparr>, \<lparr>role = user, content = ''hi''\<rparr>]]
   \<and> map (req_model \<circ> http_body)
     (snd (sendMessage example_platform unreachable_world example_service ''hi''
        (Some \<lparr>opt_conversationId = None, opt_model = Some [], opt_systemPrompt = Some []\<rparr>)))
     = [''gpt-4'']"
  by (simp add: sent_with_credential [OF example_service_configured] build_request_body
      build_messages_def opt_field_def str_or_def defaultModel_example_service)

text \<open>
  Claim C7 fails on the code. A \<open>GET /graphql\<close> with a query and a \<open>variables\<close>
  parameter that is not JSON is not answered with status 400: \<open>JSON.parse\<close> throws
  outside any \<open>try\<close>, the SyntaxError leaves the handler and the gateway produces no
  response.
\<close>

theorem get_with_malformed_variables_throws:
  "fetch example_platform graphql c get_with_malformed_variables env = Inl SyntaxError
   \<and> JSON_parse example_platform ''{'' = None"
proof -
  have j: "JSON_parse example_platform ''{'' = None"
    by (simp add: example_platform_def)
  have m: "request_method get_with_malformed_variables \<noteq> ''OPTIONS''"
    "pathname get_with_malformed_variables = ''/graphql''"
    by (simp_all add: get_with_malformed_variables_def)
  have "parseGraphQLRequest example_platform get_with_malformed_variables = Inl SyntaxError"
    by (rule parse_get_malformed_variables [where q = "''{ hello }''" and v = "''{''"])
      (simp_all add: get_with_malformed_variables_def j)
  then have "fetch example_platform graphql c get_with_malformed_variables env = Inl SyntaxError"
    by (simp add: fetch_graphql_route [OF m] and_then_def)
  with j show ?thesis by simp
qed

text \<open>
  Claim C8. A request whose method is \<open>OPTIONS\<close> is answered, whatever its path, with
  status 200, no body and exactly the three cross-origin headers; the answer does not
  depend on the path, the environment or the engine, which is not consulted.
\<close>

theorem options_preflight_short_circuit:
  "request_method request = ''OPTIONS'' \<longrightarrow>
     fetch P graphql c request env =
       Inr \<lparr> rsp_status = 200,
             rsp_headers = [(''Access-Control-Allow-Origin'', ''*''),
                            (''Access-Control-Allow-Methods'', ''GET, POST, OPTIONS''),
                            (''Access-Control-Allow-Headers'', ''Content-Type, Authorization'')],
             rsp_body = NoBody \<rparr>"
  by (simp add: fetch_def handleCORS_def corsHeaders_def)

theorem options_preflight_short_circuit_witness:
  "request_method options_request = ''OPTIONS''
   \<and> fetch example_platform example_engine example_clock options_request example_env =
       Inr \<lparr> rsp_status = 200,
             rsp_headers = [(''Access-Control-Allow-Origin'', ''*''),
                            (''Access-Control-Allow-Methods'', ''GET, POST, OPTIONS''),
                            (''Access-Control-Allow-Headers'', ''Content-Type, Authorization'')],
             rsp_body = NoBody \<rparr>"
proof -
  have m: "request_method options_request = ''OPTIONS''"
    by (simp add: options_request_def)
  from options_preflight_short_circuit [rule_format, OF m] m show ?thesis
    by blast
qed

text \<open>
  Claim C9, as amended. For every \<open>sendMessage\<close> mutation the model sent to the
  upstream and the \<open>model\<close> field of the returned ChatResponse both equal
  \<open>input.model\<close> when a non-empty one is provided and the literal \<open>gpt-3.5-turbo\<close>
  otherwise; the configured default model is never consulted: changing it changes
  nothing of what the mutation does or returns.
\<close>

theorem mutation_model_is_requested_or_literal:
  "(\<exists>r. fst (Mutation_sendMessage P w c chatService input) = Inr r \<and>
        res_model r =
          (case in_model input of
             None \<Rightarrow> ''gpt-3.5-turbo''
           | Some m \<Rightarrow> if m = [] then ''gpt-3.5-turbo'' else m))
   \<and> (trim (apiKey chatService) \<noteq> [] \<longrightarrow>
        map (req_model \<circ> http_body) (snd (Mutation_sendMessage P w c chatService input)) =
          [case in_model input of
             None \<Rightarrow> ''gpt-3.5-turbo''
           | Some m \<Rightarrow> if m = [] then ''gpt-3.5-turbo'' else m])
   \<and> Mutation_sendMessage P w c (chatService\<lparr>defaultModel := d\<rparr>) input
        = Mutation_sendMessage P w c chatService input"
proof (intro conjI impI)
  let ?opts = "Some \<lparr> opt_conversationId = in_conversationId input,
               opt_model = Some (str_or (in_model input) ''gpt-3.5-turbo''),
               opt_systemPrompt = None \<rparr>"
  let ?m = "case in_model input of
             None \<Rightarrow> ''gpt-3.5-turbo''
           | Some m \<Rightarrow> if m = [] then ''gpt-3.5-turbo'' else m"
  obtain v where v: "fst (sendMessage P w chatService (in_message input) ?opts) = Inr v"
    using sendMessage_returns by blast
  then have s: "sendMessage P w chatService (in_message input) ?opts
      = (Inr v, snd (sendMessage P w chatService (in_message input) ?opts))"
    by (metis prod.collapse)
  note res = Mutation_sendMessage_result [OF s, of c]
  show "\<exists>r. fst (Mutation_sendMessage P w c chatService input) = Inr r \<and> res_model r = ?m"
    by (simp add: res requested_model)
  {
    assume key: "trim (apiKey chatService) \<noteq> []"
    have "req_model (http_body (build_request chatService (in_message input) ?opts)) = ?m"
      using requested_model_nonempty [of input]
      by (simp add: build_request_body opt_field_def str_or_def split: option.split)
    then show "map (req_model \<circ> http_body) (snd (Mutation_sendMessage P w c chatService input))
        = [?m]"
      by (simp add: res sent_with_credential [OF key])
  }
  have rq: "build_request (chatService\<lparr>defaultModel := d\<rparr>) (in_message input) ?opts
      = build_request chatService (in_message input) ?opts"
    using requested_model_nonempty [of input]
    by (simp add: build_request_def opt_field_def str_or_def split: option.split)
  have "sendMessage P w (chatService\<lparr>defaultModel := d\<rparr>) (in_message input) ?opts
      = sendMessage P w chatService (in_message input) ?opts"
    unfolding sendMessage_def rq by simp
  then show "Mutation_sendMessage P w c (chatService\<lparr>defaultModel := d\<rparr>) input
        = Mutation_sendMessage P w c chatService input"
    by (simp add: Mutation_sendMessage_def)
qed

theorem mutation_model_is_requested_or_literal_witness:
  "trim (apiKey example_service) \<noteq> []
   \<and> (\<exists>r. fst (Mutation_sendMessage example_platform unreachable_world example_clock
                 example_service
                 \<lparr>in_message = ''hi'', in_conversationId = None, in_model = Some ''gpt-4o''\<rparr>)
             = Inr r \<and> res_model r = ''gpt-4o'')
   \<and> map (req_model \<circ> http_body)
        (snd (Mutation_sendMessage example_platform unreachable_world example_clock
                example_service
                \<lparr>in_message = ''hi'', in_conversationId = None, in_model = Some ''gpt-4o''\<rparr>))
       = [''gpt-4o'']"
proof -
  note inst = mutation_model_is_requested_or_literal
    [where P = example_platform and w = unreachable_world and c = example_clock
       and chatService = example_service
       and input = "\<lparr>in_message = ''hi'', in_conversationId = None, in_model = Some ''gpt-4o''\<rparr>"]
  from inst [THEN conjunct1]
  have a: "\<exists>r. fst (Mutation_sendMessage example_platform unreachable_world example_clock
                 example_service
                 \<lparr>in_message = ''hi'', in_conversationId = None, in_model = Some ''gpt-4o''\<rparr>)
             = Inr r \<and> res_model r = ''gpt-4o''"
    by simp
  from inst [THEN conjunct2, THEN conjunct1, rule_format, OF example_service_configured]
  have b: "map (req_model \<circ> http_body)
        (snd (Mutation_sendMessage example_platform unreachable_world example_clock
                example_service
                \<lparr>in_message = ''hi'', in_conversationId = None, in_model = Some ''gpt-4o''\<rparr>))
       = [''gpt-4o'']"
    by simp
  from example_service_configured a b show ?thesis by blast
qed

text \<open>
  The claim as stated (the model is \<open>input.model\<close> when it is provided) fails where
  \<open>input.model\<close> is provided but empty: the model sent and the model reported are
  \<open>gpt-3.5-turbo\<close>, not the empty string.
\<close>

theorem empty_input_model_reports_literal:
  "map_sum id res_model
     (fst (Mutation_sendMessage example_platform unreachable_world example_clock example_service
        \<lparr>in_message = ''hi'', in_conversationId = None, in_model = Some []\<rparr>))
     = Inr ''gpt-3.5-turbo''
   \<and> map (req_model \<circ> http_body)
     (snd (Mutation_sendMessage example_platform unreachable_world example_clock example_service
        \<lparr>in_message = ''hi'', in_conversationId = None, in_model = Some []\<rparr>))
     = [''gpt-3.5-turbo'']
   \<and> in_model \<lparr>in_message = ''hi'', in_conversationId = None, in_model = Some []\<rparr> = Some []"
  by (simp add: Mutation_sendMessage_def sendMessage_unreachable build_request_body
      opt_field_def str_or_def)

text \<open>
  Claim C10. A temperature of 0 or a maxTokens of 0 cannot be configured: the constructor
  replaces a temperature of 0 by 0.7, a maxTokens of 0 by 1000 and an empty model by
  \<open>gpt-3.5-turbo\<close>; the factory, given \<open>TEMPERATURE="0"\<close> or \<open>MAX_TOKENS="0"\<close>
  (which \<open>parseFloat\<close> and \<open>parseInt\<close> read as 0), yields 0.7 and 1000; and no
  configuration and no environment at all gives a service whose temperature or maxTokens
  is 0 or whose default model is empty.
\<close>

theorem falsy_settings_replaced_by_defaults:
  "temperature (new_ChatGPTService (config\<lparr>cfg_temperature := Some (Finite 0)\<rparr>)) = Finite (7 / 10)
   \<and> maxTokens (new_ChatGPTService (config\<lparr>cfg_maxTokens := Some (Finite 0)\<rparr>)) = Finite 1000
   \<and> defaultModel (new_ChatGPTService (config\<lparr>cfg_model := Some []\<rparr>)) = ''gpt-3.5-turbo''
   \<and> (parseFloat P ''0'' = Finite 0 \<longrightarrow>
        temperature (createChatGPTService P (env\<lparr>TEMPERATURE := Some ''0''\<rparr>)) = Finite (7 / 10))
   \<and> (parseInt P ''0'' = Finite 0 \<longrightarrow>
        maxTokens (createChatGPTService P (env\<lparr>MAX_TOKENS := Some ''0''\<rparr>)) = Finite 1000)
   \<and> defaultModel (createChatGPTService P (env\<lparr>OPENAI_MODEL := Some []\<rparr>)) = ''gpt-3.5-turbo''
   \<and> temperature (new_ChatGPTService config) \<noteq> Finite 0
   \<and> maxTokens (new_ChatGPTService config) \<noteq> Finite 0
   \<and> defaultModel (new_ChatGPTService config) \<noteq> []
   \<and> temperature (createChatGPTService P env) \<noteq> Finite 0
   \<and> maxTokens (createChatGPTService P env) \<noteq> Finite 0
   \<and> defaultModel (createChatGPTService P env) \<noteq> []"
proof -
  have zero: "\<And>n. num_truthy n \<Longrightarrow> n \<noteq> Finite 0"
    using not_truthy_zero by auto
  have a1: "temperature (new_ChatGPTService (config\<lparr>cfg_temperature := Some (Finite 0)\<rparr>))
              = Finite (7 / 10)"
    by (simp add: new_ChatGPTService_def num_or_zero)
  have a2: "maxTokens (new_ChatGPTService (config\<lparr>cfg_maxTokens := Some (Finite 0)\<rparr>))
              = Finite 1000"
    by (simp add: new_ChatGPTService_def num_or_zero)
  have a3: "defaultModel (new_ChatGPTService (config\<lparr>cfg_model := Some []\<rparr>)) = ''gpt-3.5-turbo''"
    by (simp add: new_ChatGPTService_def str_or_empty)
  have b1: "parseFloat P ''0'' = Finite 0 \<longrightarrow>
        temperature (createChatGPTService P (env\<lparr>TEMPERATURE := Some ''0''\<rparr>)) = Finite (7 / 10)"
    by (simp add: createChatGPTService_def new_ChatGPTService_def str_or_def num_or_zero)
  have b2: "parseInt P ''0'' = Finite 0 \<longrightarrow>
        maxTokens (createChatGPTService P (env\<lparr>MAX_TOKENS := Some ''0''\<rparr>)) = Finite 1000"
    by (simp add: createChatGPTService_def new_ChatGPTService_def str_or_def num_or_zero)
  have b3: "defaultModel (createChatGPTService P (env\<lparr>OPENAI_MODEL := Some []\<rparr>))
              = ''gpt-3.5-turbo''"
    by (simp add: createChatGPTService_def new_ChatGPTService_def str_or_def)
  have c1: "temperature (new_ChatGPTService config) \<noteq> Finite 0"
    by (rule zero) (rule service_settings_truthy)
  have c2: "maxTokens (new_ChatGPTService config) \<noteq> Finite 0"
    by (rule zero) (rule service_settings_truthy)
  have c3: "defaultModel (new_ChatGPTService config) \<noteq> []"
    by (rule service_settings_truthy)
  have d1: "temperature (createChatGPTService P env) \<noteq> Finite 0"
    unfolding createChatGPTService_def by (rule zero) (rule service_settings_truthy)
  have d2: "maxTokens (createChatGPTService P env) \<noteq> Finite 0"
    unfolding createChatGPTService_def by (rule zero) (rule service_settings_truthy)
  have d3: "defaultModel (createChatGPTService P env) \<noteq> []"
    unfolding createChatGPTService_def by (rule service_settings_truthy)
  from a1 a2 a3 b1 b2 b3 c1 c2 c3 d1 d2 d3 show ?thesis by blast
qed

theorem falsy_settings_replaced_by_defaults_witness:
  "parseFloat example_platform ''0'' = Finite 0
   \<and> parseInt example_platform ''0'' = Finite 0
   \<and> TEMPERATURE example_env = Some ''0''
   \<and> MAX_TOKENS example_env = Some ''0''
   \<and> temperature (createChatGPTService example_platform example_env) = Finite (7 / 10)
   \<and> maxTokens (createChatGPTService example_platform example_env) = Finite 1000"
proof -
  have pf: "parseFloat example_platform ''0'' = Finite 0"
    by (simp add: example_platform_def digit_value_def)
  have pint: "parseInt example_platform ''0'' = Finite 0"
    by (simp add: example_platform_def digit_value_def)
  have e1: "example_env\<lparr>TEMPERATURE := Some ''0''\<rparr> = example_env"
    by (simp add: example_env_def)
  have e2: "example_env\<lparr>MAX_TOKENS := Some ''0''\<rparr> = example_env"
    by (simp add: example_env_def)
  note inst = falsy_settings_replaced_by_defaults
    [where P = example_platform and env = example_env]
  from inst pf e1 have t: "temperature (createChatGPTService example_platform example_env)
      = Finite (7 / 10)"
    by simp
  from inst pint e2 have m: "maxTokens (createChatGPTService example_platform example_env)
      = Finite 1000"
    by simp
  from pf pint t m show ?thesis by (simp add: example_env_def)
qed

end
